theory Spec2Isabelle
  imports Main "HOL-Library.Word"
begin

section \<open>Values shared with the collaborators\<close>

text \<open>
  Go's \<^verbatim>\<open>uint\<close> on the 64-bit targets the Makefile builds for. The service never
  computes with the bounds, it only prints and stores them.
\<close>

type_synonym uint = "64 word"

text \<open>
  A Go \<^verbatim>\<open>error\<close> is an interface value: \<open>None\<close> is \<^verbatim>\<open>nil\<close>, \<open>Some (Error m)\<close>
  an error whose message is \<open>m\<close>. Calling the method \<^verbatim>\<open>Error()\<close> on the nil
  interface is a run-time panic (nil pointer dereference).
\<close>

datatype error = Error string

datatype panic = NilDereference

datatype outcome = Returned | Panicked panic

fun error_Error :: "error option \<Rightarrow> panic + string" where
  "error_Error None = Inl NilDereference"
| "error_Error (Some (Error m)) = Inr m"

text \<open>
  Modelled from the spec: \<^verbatim>\<open>dataaccess.File\<close> (declared in package dataaccess), as the
  values of the methods that \<^verbatim>\<open>createThumbnail\<close> calls.
  \<open>file_MimeType\<close> is the pair returned by \<^verbatim>\<open>MimeType()\<close>, \<open>Inl\<close> the error.
  \<^verbatim>\<open>Data\<close> gives scoped access to the content: \<open>file_Data = Inr c\<close> means that the
  consumer is invoked on the content \<open>c\<close> and its result returned, \<open>file_Data = Inl e\<close>
  that \<^verbatim>\<open>Data\<close> returns \<open>e\<close> without invoking the consumer.
\<close>

record File =
  file_Id :: string
  file_Parent :: string
  file_Route :: string
  file_MimeType :: "error + string"
  file_Data :: "error + string"

type_synonym Item = "File list"

type_synonym Repository = "Item list"

section \<open>Thumbs and the index\<close>

text \<open>
  Modelled from the spec: the types \<^verbatim>\<open>ThumbDimension\<close>, \<^verbatim>\<open>Thumb\<close>, \<^verbatim>\<open>Thumbs\<close>,
  \<^verbatim>\<open>Index\<close> and the constructor \<^verbatim>\<open>newThumb\<close>, which \<^verbatim>\<open>service.go\<close> uses and another
  file of the package declares. A thumb is its source route, its generated file name
  and its bounds; the index maps a source route to a map from the rendered bounds to
  the thumb. An index is a map that exists: the \<^verbatim>\<open>nil\<close> map, on which \<^verbatim>\<open>addToIndex\<close>
  would panic, is not among the values.
\<close>

record ThumbDimension =
  MaxWidth :: uint
  MaxHeight :: uint

record Thumb =
  Route :: string
  Name :: string
  Dimensions :: ThumbDimension

type_synonym Thumbs = "string \<rightharpoonup> Thumb"

type_synonym Index = "string \<rightharpoonup> Thumbs"

definition newThumb :: "string \<Rightarrow> string \<Rightarrow> uint \<Rightarrow> uint \<Rightarrow> Thumb" where
  "newThumb route name maxWidth maxHeight =
     \<lparr>Route = route, Name = name,
      Dimensions = \<lparr>MaxWidth = maxWidth, MaxHeight = maxHeight\<rparr>\<rparr>"

subsection \<open>Decimal rendering\<close>

definition digit :: "nat \<Rightarrow> char" where
  "digit n = (case drop n ''0123456789'' of c # cs \<Rightarrow> c | [] \<Rightarrow> CHR ''9'')"

text \<open>What \<^verbatim>\<open>%v\<close> prints for an unsigned integer: its decimal numeral.\<close>

function decimal :: "nat \<Rightarrow> string" where
  "decimal n = (if n < 10 then [digit n] else decimal (n div 10) @ [digit (n mod 10)])"
  by pat_completeness auto
termination
  by (relation "measure id") auto

declare decimal.simps [simp del]

definition fmt_uint :: "uint \<Rightarrow> string" where
  "fmt_uint w = decimal (unat w)"

text \<open>
  Modelled from the spec: \<^verbatim>\<open>ThumbDimension.String()\<close>, declared with the type, is the
  canonical rendering of the pair used as the inner key of the index, for instance
  \<^verbatim>\<open>200x0\<close>.
\<close>

definition ThumbDimension_String :: "ThumbDimension \<Rightarrow> string" where
  "ThumbDimension_String d = fmt_uint (MaxWidth d) @ ''x'' @ fmt_uint (MaxHeight d)"

section \<open>The environment\<close>

text \<open>
  The functions of other packages that the service calls, taken as parameters:
  \<^verbatim>\<open>imageconversion.MimeTypeIsSupported\<close>, \<^verbatim>\<open>imageconversion.GetFileExtensionFromMimeType\<close>,
  \<^verbatim>\<open>route.Combine\<close> (\<open>Inl\<close> the error), \<^verbatim>\<open>filepath.Join\<close>, \<^verbatim>\<open>fsutil.OpenFile\<close>
  (the error it returns for a path, \<open>None\<close> when the file was opened),
  \<^verbatim>\<open>imageconversion.Resize\<close> (the error it returns for a content, a media type, the
  bounds and the path of the target), \<^verbatim>\<open>fsutil.CreateDirectory\<close> and the reading of
  the index file (\<open>None\<close> when the file is missing, unreadable or does not
  deserialize).
\<close>

record Env =
  MimeTypeIsSupported :: "string \<Rightarrow> bool"
  GetFileExtensionFromMimeType :: "string \<Rightarrow> string"
  Combine :: "string \<Rightarrow> string \<Rightarrow> error + string"
  Join :: "string \<Rightarrow> string \<Rightarrow> string"
  OpenFile :: "string \<Rightarrow> error option"
  Resize :: "string \<Rightarrow> string \<Rightarrow> uint \<Rightarrow> uint \<Rightarrow> string \<Rightarrow> error option"
  CreateDirectory :: "string \<Rightarrow> bool"
  ReadIndexFile :: "string \<Rightarrow> Index option"

section \<open>The service and the host it acts on\<close>

text \<open>
  What the service does to the outside is recorded in a trace. \<open>EvOpenFile\<close> and
  \<open>EvResize\<close> carry the file and the thumb of the call of \<^verbatim>\<open>createThumbnail\<close>
  that performs them; \<open>EvResize\<close> carries the media type and the target path passed
  to \<^verbatim>\<open>Resize\<close> as well (the content is the file's, the bounds are the thumb's).
  A log entry is recorded with its level and format string.
\<close>

datatype level = Debug | Info | Warn

datatype event =
    EvLog level string
  | EvCreateDirectory string
  | EvOpenFile File Thumb string
  | EvResize File Thumb string string
  | EvClose string
  | EvSleep nat
  | EvGo string
  | EvRegisterShutdown string

text \<open>The host: the paths that exist on disk, and the trace.\<close>

record Host =
  disk :: "string set"
  trace :: "event list"

text \<open>
  The struct \<^verbatim>\<open>ConversionService\<close> (without its logger and configuration), as an
  extension of the host it runs on. \<open>repository\<close> is what \<^verbatim>\<open>repository.Items()\<close>
  returns, each item given by its \<^verbatim>\<open>Files()\<close>.
\<close>

record ConversionService = Host +
  repository :: Repository
  isRunning :: bool
  indexFilePath :: string
  index :: Index
  thumbnailFolder :: string

definition emit :: "event \<Rightarrow> 'a Host_scheme \<Rightarrow> 'a Host_scheme" where
  "emit e h = h\<lparr>trace := trace h @ [e]\<rparr>"

definition logger :: "level \<Rightarrow> string \<Rightarrow> 'a Host_scheme \<Rightarrow> 'a Host_scheme" where
  "logger l msg h = emit (EvLog l msg) h"

subsection \<open>isInIndex, addToIndex\<close>

definition isInIndex :: "ConversionService \<Rightarrow> Thumb \<Rightarrow> bool" where
  "isInIndex conversion thumb =
     (case index conversion (Route thumb) of
        None \<Rightarrow> False
      | Some thumbs \<Rightarrow>
          (case thumbs (ThumbDimension_String (Dimensions thumb)) of
             None \<Rightarrow> False
           | Some _ \<Rightarrow> True))"

definition addToIndex :: "ConversionService \<Rightarrow> Thumb \<Rightarrow> ConversionService" where
  "addToIndex conversion thumb =
     (let thumbs = (case index conversion (Route thumb) of
                      None \<Rightarrow> Map.empty
                    | Some entry \<Rightarrow> entry);
          thumbs = thumbs(ThumbDimension_String (Dimensions thumb) \<mapsto> thumb)
      in conversion\<lparr>index := (index conversion)(Route thumb \<mapsto> thumbs)\<rparr>)"

subsection \<open>createThumbnail\<close>

text \<open>\<^verbatim>\<open>fmt.Sprintf("%s-%v-%v.%s", file.Id(), maxWidth, maxHeight, fileExtension)\<close>\<close>

definition thumbFilename :: "string \<Rightarrow> uint \<Rightarrow> uint \<Rightarrow> string \<Rightarrow> string" where
  "thumbFilename fileId maxWidth maxHeight fileExtension =
     fileId @ ''-'' @ fmt_uint maxWidth @ ''-'' @ fmt_uint maxHeight @ ''.'' @ fileExtension"

text \<open>
  \<^verbatim>\<open>file.Data(func(content) error { return imageconversion.Resize(content, mimeType,
  maxWidth, maxHeight, target) })\<close>: the error returned, and the host after it.
\<close>

definition convert ::
  "Env \<Rightarrow> File \<Rightarrow> Thumb \<Rightarrow> string \<Rightarrow> uint \<Rightarrow> uint \<Rightarrow> string \<Rightarrow> ConversionService
     \<Rightarrow> error option \<times> ConversionService" where
  "convert env file thumb mimeType maxWidth maxHeight filePath conversion =
     (case file_Data file of
        Inl e \<Rightarrow> (Some e, conversion)
      | Inr content \<Rightarrow>
          (Resize env content mimeType maxWidth maxHeight filePath,
           emit (EvResize file thumb mimeType filePath) conversion))"

text \<open>
  Modelled from the spec: \<^verbatim>\<open>fsutil.OpenFile\<close> (declared in package fsutil) opens the
  output target, creating it; it fails when the target can be neither created nor
  opened. After a successful call the path exists. What \<^verbatim>\<open>Resize\<close> writes into the
  target is not recorded: the disk is the set of the paths that exist.
\<close>

definition fsutil_OpenFile ::
  "Env \<Rightarrow> string \<Rightarrow> ConversionService \<Rightarrow> error option \<times> ConversionService" where
  "fsutil_OpenFile env path conversion =
     (case OpenFile env path of
        Some e \<Rightarrow> (Some e, conversion)
      | None \<Rightarrow> (None, conversion\<lparr>disk := insert path (disk conversion)\<rparr>))"

text \<open>
  The body of \<^verbatim>\<open>createThumbnail\<close>, branch by branch in the order of the source.
  The variable \<open>err\<close> is the one the source assigns from \<^verbatim>\<open>fsutil.OpenFile\<close>; the
  warning after a failed conversion evaluates \<^verbatim>\<open>err.Error()\<close> on it. The deferred
  \<^verbatim>\<open>target.Close()\<close> runs when the function is left after the open succeeded, by
  return or by panic. Nothing removes the target file.
\<close>

definition createThumbnail ::
  "Env \<Rightarrow> File \<Rightarrow> uint \<Rightarrow> uint \<Rightarrow> ConversionService \<Rightarrow> outcome \<times> ConversionService" where
  "createThumbnail env file maxWidth maxHeight conversion =
     (case file_MimeType file of
        Inl mimeErr \<Rightarrow>
          (Returned, logger Warn ''Unable to detect mime type for file. Error: %s'' conversion)
      | Inr mimeType \<Rightarrow>
          if \<not> MimeTypeIsSupported env mimeType
          then (Returned, logger Debug ''The mime-type %q is currently not supported.'' conversion)
          else
            let fileExtension = GetFileExtensionFromMimeType env mimeType;
                filename = thumbFilename (file_Id file) maxWidth maxHeight fileExtension
            in (case Combine env (file_Parent file) (file_Route file) of
                  Inl routeErr \<Rightarrow>
                    (Returned, logger Warn ''Unable to combine routes %q and %q.'' conversion)
                | Inr fullFileRoute \<Rightarrow>
                    let thumb = newThumb fullFileRoute filename maxWidth maxHeight in
                    if isInIndex conversion thumb
                    then (Returned,
                          logger Debug ''Thumb %q already available in the index'' conversion)
                    else
                      let filePath = Join env (thumbnailFolder conversion) filename;
                          (err, opened) =
                            fsutil_OpenFile env filePath
                              (emit (EvOpenFile file thumb filePath) conversion)
                      in (case err of
                            Some openErr \<Rightarrow>
                              (Returned,
                               logger Warn ''Unable to detect mime type for file. Error: %s'' opened)
                          | None \<Rightarrow>
                              let (conversionError, converted) =
                                    convert env file thumb mimeType maxWidth maxHeight filePath opened
                              in (case conversionError of
                                    Some resizeErr \<Rightarrow>
                                      (case error_Error err of
                                         Inl p \<Rightarrow> (Panicked p, emit (EvClose filePath) converted)
                                       | Inr msg \<Rightarrow>
                                           (Returned,
                                            emit (EvClose filePath)
                                              (logger Warn
                                                 ''Unable to create thumbnail for file %q. Error: %s''
                                                 converted)))
                                  | None \<Rightarrow>
                                      (Returned,
                                       emit (EvClose filePath)
                                         (logger Debug ''Adding Thumb %q to index''
                                            (addToIndex converted thumb)))))))"

subsection \<open>createThumbnails\<close>

text \<open>Sequencing of statements: a panic ends the function and reaches its caller.\<close>

definition andThen ::
  "(ConversionService \<Rightarrow> outcome \<times> ConversionService) \<Rightarrow>
   (ConversionService \<Rightarrow> outcome \<times> ConversionService) \<Rightarrow>
   ConversionService \<Rightarrow> outcome \<times> ConversionService" where
  "andThen first second conversion =
     (case first conversion of
        (Returned, conversion') \<Rightarrow> second conversion'
      | (Panicked p, conversion') \<Rightarrow> (Panicked p, conversion'))"

definition sleep :: "nat \<Rightarrow> ConversionService \<Rightarrow> outcome \<times> ConversionService" where
  "sleep seconds conversion = (Returned, emit (EvSleep seconds) conversion)"

text \<open>The body of the inner loop, for one file.\<close>

definition forFile :: "Env \<Rightarrow> File \<Rightarrow> ConversionService \<Rightarrow> outcome \<times> ConversionService" where
  "forFile env file =
     andThen (createThumbnail env file 200 0)
       (andThen (createThumbnail env file 400 0)
          (andThen (createThumbnail env file 800 0)
             (sleep 5)))"

fun forFiles :: "Env \<Rightarrow> File list \<Rightarrow> ConversionService \<Rightarrow> outcome \<times> ConversionService" where
  "forFiles env [] conversion = (Returned, conversion)"
| "forFiles env (file # files) conversion =
     andThen (forFile env file) (forFiles env files) conversion"

fun forItems :: "Env \<Rightarrow> Item list \<Rightarrow> ConversionService \<Rightarrow> outcome \<times> ConversionService" where
  "forItems env [] conversion = (Returned, conversion)"
| "forItems env (item # items) conversion =
     andThen (forFiles env item) (forItems env items) conversion"

definition createThumbnails :: "Env \<Rightarrow> ConversionService \<Rightarrow> outcome \<times> ConversionService" where
  "createThumbnails env conversion = forItems env (repository conversion) conversion"

section \<open>Construction\<close>

text \<open>
  Modelled from the spec: \<^verbatim>\<open>loadIndex\<close>, declared with the index, reads the
  serialized index; when the file is missing, unreadable or does not deserialize it
  returns an empty index together with an error.
\<close>

definition loadIndex :: "Env \<Rightarrow> string \<Rightarrow> Index \<times> error option" where
  "loadIndex env path =
     (case ReadIndexFile env path of
        None \<Rightarrow> (Map.empty, Some (Error ''IndexUnavailable''))
      | Some loaded \<Rightarrow> (loaded, None))"

text \<open>
  \<^verbatim>\<open>NewConversionService\<close>, given the metadata folder of the configuration:
  \<open>Inl\<close> is the \<^verbatim>\<open>nil\<close> result, with the host as the attempt left it. Starting the
  worker and registering the two shutdown actions are recorded in the trace.
\<close>

definition NewConversionService ::
  "Env \<Rightarrow> string \<Rightarrow> Repository \<Rightarrow> Host \<Rightarrow> Host + ConversionService" where
  "NewConversionService env metaDataFolder repo host =
     (let indexPath = Join env metaDataFolder ''thumbnail.index'';
          (loaded, err) = loadIndex env indexPath;
          host = (case err of
                    Some e \<Rightarrow> logger Debug ''No thumbnail index loaded (%s). Creating a new one.'' host
                  | None \<Rightarrow> host);
          targetFolder = Join env metaDataFolder ''thumbnails'';
          host = logger Debug ''Creating a thumbnail folder at %q.'' host;
          host = emit (EvCreateDirectory targetFolder) host
      in if \<not> CreateDirectory env targetFolder
         then Inl (logger Warn ''Could not create the thumbnail folder %q'' host)
         else
           let host = host\<lparr>disk := insert targetFolder (disk host)\<rparr>;
               host = emit (EvGo ''startConversion'') host;
               host = emit (EvRegisterShutdown ''Stopping the conversion process'') host;
               host = emit (EvRegisterShutdown ''Saving the index'') host
           in Inr (Host.extend host
                     \<lparr>repository = repo, isRunning = True, indexFilePath = indexPath,
                      index = loaded, thumbnailFolder = targetFolder\<rparr>))"

section \<open>Vocabulary of the properties\<close>

text \<open>
  The thumb and the file an event was performed for, and whether it is an invocation of \<^verbatim>\<open>Resize\<close>.
\<close>

fun evThumb :: "event \<Rightarrow> Thumb option" where
  "evThumb (EvOpenFile file thumb path) = Some thumb"
| "evThumb (EvResize file thumb mimeType path) = Some thumb"
| "evThumb _ = None"

fun evFile :: "event \<Rightarrow> File option" where
  "evFile (EvOpenFile file thumb path) = Some file"
| "evFile (EvResize file thumb mimeType path) = Some file"
| "evFile _ = None"

fun isResize :: "event \<Rightarrow> bool" where
  "isResize (EvResize file thumb mimeType path) = True"
| "isResize _ = False"

text \<open>
  A thumbnail is identified by its source route and its bounds, whatever its file name.
\<close>

definition sameIdentity :: "Thumb \<Rightarrow> Thumb \<Rightarrow> bool" where
  "sameIdentity t t' = (Route t = Route t' \<and> Dimensions t = Dimensions t')"

text \<open>
  The thumb that \<^verbatim>\<open>createThumbnail\<close> builds for a file and bounds before it
  consults the index: \<open>None\<close> when it returns earlier (media type undetected or
  unsupported, routes that do not combine).
\<close>

definition thumbOf :: "Env \<Rightarrow> File \<Rightarrow> uint \<Rightarrow> uint \<Rightarrow> Thumb option" where
  "thumbOf env file maxWidth maxHeight =
     (case file_MimeType file of
        Inl mimeErr \<Rightarrow> None
      | Inr mimeType \<Rightarrow>
          if \<not> MimeTypeIsSupported env mimeType then None
          else
            (case Combine env (file_Parent file) (file_Route file) of
               Inl routeErr \<Rightarrow> None
             | Inr fullFileRoute \<Rightarrow>
                 Some (newThumb fullFileRoute
                         (thumbFilename (file_Id file) maxWidth maxHeight
                            (GetFileExtensionFromMimeType env mimeType))
                         maxWidth maxHeight)))"

text \<open>
  A file and bounds for which \<^verbatim>\<open>createThumbnail\<close> has nothing left to convert: no
  thumb, a thumb that is in the index, or a target that cannot be opened.
\<close>

definition settled :: "Env \<Rightarrow> ConversionService \<Rightarrow> File \<Rightarrow> uint \<Rightarrow> uint \<Rightarrow> bool" where
  "settled env conversion file maxWidth maxHeight =
     (case thumbOf env file maxWidth maxHeight of
        None \<Rightarrow> True
      | Some thumb \<Rightarrow>
          isInIndex conversion thumb \<or>
          OpenFile env (Join env (thumbnailFolder conversion) (Name thumb)) \<noteq> None)"

text \<open>
  The events added to the trace between two states.
\<close>

definition emitted :: "ConversionService \<Rightarrow> ConversionService \<Rightarrow> event list" where
  "emitted before after = drop (length (trace before)) (trace after)"

text \<open>
  A computation keeps an invariant \<open>I\<close> of the service, emits only events satisfying \<open>G\<close>,
  ends with an outcome satisfying \<open>R\<close> and leaves the repository as it is.
\<close>

definition upholds ::
  "(ConversionService \<Rightarrow> bool) \<Rightarrow> (event \<Rightarrow> bool) \<Rightarrow> (outcome \<Rightarrow> bool) \<Rightarrow>
   (ConversionService \<Rightarrow> outcome \<times> ConversionService) \<Rightarrow> bool" where
  "upholds I G R m =
     (\<forall>c r c'. I c \<longrightarrow> m c = (r, c') \<longrightarrow>
        I c' \<and> R r \<and> repository c' = repository c \<and>
        (\<exists>evs. trace c' = trace c @ evs \<and> (\<forall>e\<in>set evs. G e)))"

text \<open>
  A file that \<^verbatim>\<open>createThumbnail\<close> gives up on at once: its media type cannot be detected,
  or is not supported.
\<close>

definition ineligible :: "Env \<Rightarrow> File \<Rightarrow> bool" where
  "ineligible env file =
     (case file_MimeType file of
        Inl mimeErr \<Rightarrow> True
      | Inr mimeType \<Rightarrow> \<not> MimeTypeIsSupported env mimeType)"



text \<open>
  The record stored in the index under a route and rendered bounds.
\<close>

definition lookup :: "ConversionService \<Rightarrow> string \<Rightarrow> string \<Rightarrow> Thumb option" where
  "lookup conversion route key =
     (case index conversion route of None \<Rightarrow> None | Some thumbs \<Rightarrow> thumbs key)"

text \<open>
  An event that opens or converts into a target names the thumb and the path as given.
\<close>

definition namedBy :: "string \<Rightarrow> string \<Rightarrow> event \<Rightarrow> bool" where
  "namedBy name path e =
     (case e of
        EvOpenFile f thumb p \<Rightarrow> Name thumb = name \<and> p = path
      | EvResize f thumb mimeType p \<Rightarrow> Name thumb = name \<and> p = path
      | _ \<Rightarrow> True)"









section \<open>Sample data\<close>

text \<open>
  A conversion capability that accepts JPEG only and fails on the content
  \<^verbatim>\<open>corrupt\<close>, a host where every file can be opened, and no index file. Paths are
  joined as \<^verbatim>\<open>filepath.Join\<close> joins two clean elements: an empty element is left out.
\<close>

definition sampleEnv :: Env where
  "sampleEnv =
     \<lparr>MimeTypeIsSupported = (\<lambda>mimeType. mimeType = ''image/jpeg''),
      GetFileExtensionFromMimeType = (\<lambda>mimeType. ''jpg''),
      Combine = (\<lambda>parent child. Inr (parent @ ''/'' @ child)),
      Join = (\<lambda>dir name. if dir = [] then name else if name = [] then dir
                          else dir @ ''/'' @ name),
      OpenFile = (\<lambda>path. None),
      Resize = (\<lambda>content mimeType maxWidth maxHeight target.
                  if content = ''corrupt'' then Some (Error ''decode'') else None),
      CreateDirectory = (\<lambda>path. True),
      ReadIndexFile = (\<lambda>path. None)\<rparr>"

text \<open>A photo, a JPEG file whose content does not decode, and a text file.\<close>

definition photo :: File where
  "photo = \<lparr>file_Id = ''abc123'', file_Parent = ''album'', file_Route = ''photo.jpg'',
            file_MimeType = Inr ''image/jpeg'', file_Data = Inr ''pixels''\<rparr>"

definition broken :: File where
  "broken = \<lparr>file_Id = ''def456'', file_Parent = ''album'', file_Route = ''broken.jpg'',
             file_MimeType = Inr ''image/jpeg'', file_Data = Inr ''corrupt''\<rparr>"

definition textFile :: File where
  "textFile = \<lparr>file_Id = ''0a1b2c'', file_Parent = ''album'', file_Route = ''notes.txt'',
            file_MimeType = Inr ''text/plain'', file_Data = Inr ''hello''\<rparr>"

text \<open>
  An empty host, and a service with an empty index whose thumbnail folder exists.
\<close>

definition emptyHost :: Host where
  "emptyHost = \<lparr>disk = {}, trace = []\<rparr>"

definition sampleService :: "Repository \<Rightarrow> ConversionService" where
  "sampleService repo =
     \<lparr>disk = {''meta/thumbnails''}, trace = [],
      repository = repo, isRunning = True, indexFilePath = ''meta/thumbnail.index'',
      index = Map.empty, thumbnailFolder = ''meta/thumbnails''\<rparr>"


text \<open>
  A service whose index already holds the thumb of the photo at (200,0).
\<close>

definition warmService :: ConversionService where
  "warmService =
     addToIndex (sampleService [[photo, textFile]])
       (newThumb ''album/photo.jpg'' ''abc123-200-0.jpg'' 200 0)"

text \<open>
  The sample environment on a volume where no directory can be created.
\<close>

definition readOnlyEnv :: Env where
  "readOnlyEnv = sampleEnv\<lparr>CreateDirectory := (\<lambda>path. False)\<rparr>"

text \<open>
  The sample environment while the thumbnail folder cannot be written: no target
  opens. The state left by a pass over the photo in this environment.
\<close>

definition lockedEnv :: Env where
  "lockedEnv = sampleEnv\<lparr>OpenFile := (\<lambda>path. Some (Error ''permission denied''))\<rparr>"


section \<open>Basic facts\<close>

lemmas call_defs = createThumbnail_def fsutil_OpenFile_def Let_def convert_def

subsection \<open>Fields and the index\<close>

lemma emit_fields [simp]:
  "trace (emit e c) = trace c @ [e]"
  "disk (emit e c) = disk c"
  by (simp_all add: emit_def)

lemma emit_service_fields [simp]:
  "index (emit e c) = index c"
  "thumbnailFolder (emit e c) = thumbnailFolder c"
  "repository (emit e c) = repository c"
  "isRunning (emit e c) = isRunning c"
  "indexFilePath (emit e c) = indexFilePath c"
  by (simp_all add: emit_def)

lemma logger_fields [simp]:
  "trace (logger l m c) = trace c @ [EvLog l m]"
  "disk (logger l m c) = disk c"
  "index (logger l m c) = index c"
  "thumbnailFolder (logger l m c) = thumbnailFolder c"
  "repository (logger l m c) = repository c"
  by (simp_all add: logger_def)


lemma isInIndex_emit [simp]: "isInIndex (emit e c) t = isInIndex c t"
  by (simp add: isInIndex_def)

lemma isInIndex_logger [simp]: "isInIndex (logger l m c) t = isInIndex c t"
  by (simp add: isInIndex_def)

lemma isInIndex_disk [simp]: "isInIndex (c\<lparr>disk := d\<rparr>) t = isInIndex c t"
  by (simp add: isInIndex_def)

lemma addToIndex_fields [simp]:
  "trace (addToIndex c t) = trace c"
  "disk (addToIndex c t) = disk c"
  "thumbnailFolder (addToIndex c t) = thumbnailFolder c"
  "repository (addToIndex c t) = repository c"
  by (simp_all add: addToIndex_def Let_def)

lemma isInIndex_addToIndex_same: "isInIndex (addToIndex c t) t"
  by (simp add: isInIndex_def addToIndex_def Let_def)

lemma isInIndex_addToIndex_mono: "isInIndex c t' \<Longrightarrow> isInIndex (addToIndex c t) t'"
  by (auto simp add: isInIndex_def addToIndex_def Let_def split: option.splits)


lemma createThumbnail_frame:
  "createThumbnail env file w h c = (r, c') \<Longrightarrow>
     thumbnailFolder c' = thumbnailFolder c \<and> repository c' = repository c \<and> disk c \<subseteq> disk c'"
  by (auto simp: call_defs split: sum.splits option.splits if_splits prod.splits)

lemma createThumbnail_mono:
  "createThumbnail env file w h c = (r, c') \<Longrightarrow> isInIndex c t \<Longrightarrow> isInIndex c' t"
  by (auto simp: call_defs isInIndex_addToIndex_mono
      split: sum.splits option.splits if_splits prod.splits)

lemma sameIdentity_isInIndex: "sameIdentity t t' \<Longrightarrow> isInIndex c t = isInIndex c t'"
  by (simp add: sameIdentity_def isInIndex_def split: option.splits)

lemma Name_newThumb [simp]: "Name (newThumb r n w h) = n"
  by (simp add: newThumb_def)

subsection \<open>Invariants of a pass\<close>

text \<open>
  What every call of \<^verbatim>\<open>createThumbnail\<close> and the sleep uphold, the loops of a pass uphold.
\<close>

lemma upholds_andThen:
  assumes "upholds I G R m" and "upholds I G R k"
  shows "upholds I G R (andThen m k)"
  unfolding upholds_def
proof (intro allI impI)
  fix c r c'
  assume I: "I c" and run: "andThen m k c = (r, c')"
  obtain r1 c1 where m: "m c = (r1, c1)" by (cases "m c")
  from assms(1) I m have 1: "I c1" "R r1" "repository c1 = repository c"
    and "\<exists>evs. trace c1 = trace c @ evs \<and> (\<forall>e\<in>set evs. G e)"
    unfolding upholds_def by blast+
  then obtain evs1 where e1: "trace c1 = trace c @ evs1" "\<forall>e\<in>set evs1. G e" by blast
  show "I c' \<and> R r \<and> repository c' = repository c \<and>
        (\<exists>evs. trace c' = trace c @ evs \<and> (\<forall>e\<in>set evs. G e))"
  proof (cases r1)
    case Returned
    with run m have k: "k c1 = (r, c')" by (simp add: andThen_def)
    from assms(2) 1 k have 2: "I c'" "R r" "repository c' = repository c1"
      and "\<exists>evs. trace c' = trace c1 @ evs \<and> (\<forall>e\<in>set evs. G e)"
      unfolding upholds_def by blast+
    then obtain evs2 where e2: "trace c' = trace c1 @ evs2" "\<forall>e\<in>set evs2. G e" by blast
    from e1 e2 have "trace c' = trace c @ (evs1 @ evs2)" "\<forall>e\<in>set (evs1 @ evs2). G e" by auto
    with 1 2 show ?thesis by metis
  next
    case (Panicked p)
    with run m have "c' = c1" "r = r1" by (simp_all add: andThen_def)
    with 1 e1 show ?thesis by blast
  qed
qed

lemma upholds_return: "R Returned \<Longrightarrow> upholds I G R (\<lambda>c. (Returned, c))"
  by (simp add: upholds_def)

lemma upholds_sleep:
  assumes "\<And>c. I c \<Longrightarrow> I (emit (EvSleep n) c)" and "G (EvSleep n)" and "R Returned"
  shows "upholds I G R (sleep n)"
  using assms by (auto simp: upholds_def sleep_def)

lemma upholds_forFile:
  assumes "\<And>w. w \<in> {200, 400, 800} \<Longrightarrow> upholds I G R (createThumbnail env file w 0)"
    and "upholds I G R (sleep 5)"
  shows "upholds I G R (forFile env file)"
  unfolding forFile_def by (intro upholds_andThen assms) simp_all

lemma upholds_forFiles:
  assumes "\<And>file w. file \<in> set files \<Longrightarrow> w \<in> {200, 400, 800} \<Longrightarrow>
             upholds I G R (createThumbnail env file w 0)"
    and "upholds I G R (sleep 5)" and "R Returned"
  shows "upholds I G R (forFiles env files)"
  using assms(1)
proof (induction files)
  case Nil
  have "forFiles env [] = (\<lambda>c. (Returned, c))" by (rule ext) simp
  then show ?case by (simp add: upholds_return assms(3))
next
  case (Cons f fs)
  have "forFiles env (f # fs) = andThen (forFile env f) (forFiles env fs)"
    by (rule ext) simp
  moreover have "upholds I G R (forFile env f)"
    by (rule upholds_forFile) (simp_all add: Cons.prems assms(2))
  moreover have "upholds I G R (forFiles env fs)"
    by (rule Cons.IH) (simp add: Cons.prems)
  ultimately show ?case by (simp add: upholds_andThen)
qed

lemma upholds_forItems:
  assumes "\<And>file w. file \<in> set (concat items) \<Longrightarrow> w \<in> {200, 400, 800} \<Longrightarrow>
             upholds I G R (createThumbnail env file w 0)"
    and "upholds I G R (sleep 5)" and "R Returned"
  shows "upholds I G R (forItems env items)"
  using assms(1)
proof (induction items)
  case Nil
  have "forItems env [] = (\<lambda>c. (Returned, c))" by (rule ext) simp
  then show ?case by (simp add: upholds_return assms(3))
next
  case (Cons it its)
  have "forItems env (it # its) = andThen (forFiles env it) (forItems env its)"
    by (rule ext) simp
  moreover have "upholds I G R (forFiles env it)"
    by (rule upholds_forFiles) (simp_all add: Cons.prems assms(2,3))
  moreover have "upholds I G R (forItems env its)"
    by (rule Cons.IH) (simp add: Cons.prems)
  ultimately show ?case by (simp add: upholds_andThen)
qed

lemma upholdsD:
  assumes "upholds I G R m" "I c" "m c = (r, c')"
  shows "I c'" "R r" "repository c' = repository c"
    "trace c' = trace c @ emitted c c'" "\<forall>e\<in>set (emitted c c'). G e"
proof -
  from assms obtain evs where "I c'" "R r" "repository c' = repository c"
    "trace c' = trace c @ evs" "\<forall>e\<in>set evs. G e"
    unfolding upholds_def by blast
  then show "I c'" "R r" "repository c' = repository c"
    "trace c' = trace c @ emitted c c'" "\<forall>e\<in>set (emitted c c'). G e"
    by (simp_all add: emitted_def)
qed

subsection \<open>A call, case by case\<close>



lemma createThumbnail_hit:
  "thumbOf env file w h = Some t \<Longrightarrow> isInIndex c t \<Longrightarrow>
     createThumbnail env file w h c =
       (Returned, logger Debug ''Thumb %q already available in the index'' c)"
  by (auto simp: call_defs thumbOf_def split: sum.splits if_splits)



lemma createThumbnail_resize_failed:
  assumes "thumbOf env file w h = Some t" "\<not> isInIndex c t"
    and "OpenFile env (Join env (thumbnailFolder c) (Name t)) = None"
    and "file_MimeType file = Inr m"
    and "file_Data file = Inr content"
    and "Resize env content m w h (Join env (thumbnailFolder c) (Name t)) = Some e"
    and "createThumbnail env file w h c = (r, c')"
  shows "r = Panicked NilDereference \<and> index c' = index c \<and>
         disk c' = insert (Join env (thumbnailFolder c) (Name t)) (disk c) \<and>
         trace c' = trace c @ [EvOpenFile file t (Join env (thumbnailFolder c) (Name t)),
                               EvResize file t m (Join env (thumbnailFolder c) (Name t)),
                               EvClose (Join env (thumbnailFolder c) (Name t))]"
  using assms
  by (auto simp: call_defs thumbOf_def split: sum.splits if_splits)


lemma createThumbnail_events:
  assumes "createThumbnail env file w h c = (r, c')"
  shows "\<exists>evs. trace c' = trace c @ evs \<and>
           (\<forall>e\<in>set evs.
              (evFile e = None \<or> evFile e = Some file) \<and>
              (evThumb e = None \<or>
               (\<exists>t. evThumb e = Some t \<and> thumbOf env file w h = Some t \<and> \<not> isInIndex c t)))"
  using assms
  by (auto simp: call_defs thumbOf_def split: sum.splits if_splits option.splits)

subsection \<open>Settled files stay settled\<close>


lemma settled_cong:
  "index c' = index c \<Longrightarrow> thumbnailFolder c' = thumbnailFolder c \<Longrightarrow>
     settled env c' file w h = settled env c file w h"
  by (simp add: settled_def isInIndex_def split: option.splits)



lemma createThumbnail_trace:
  assumes "createThumbnail env file w h c = (r, c')"
  shows "\<exists>evs. trace c' = trace c @ evs"
  using createThumbnail_events [OF assms] by blast


lemma settled_emit [simp]: "settled env (emit e c) file w h = settled env c file w h"
  by (rule settled_cong) simp_all



subsection \<open>Identities in the index, files that are not eligible\<close>

lemma upholds_known:
  "upholds (\<lambda>c. isInIndex c known)
     (\<lambda>e. \<forall>thumb. evThumb e = Some thumb \<longrightarrow> \<not> sameIdentity thumb known)
     (\<lambda>r. True) (createThumbnail env file w h)"
  unfolding upholds_def
proof (intro allI impI)
  fix c r c'
  assume k: "isInIndex c known" and run: "createThumbnail env file w h c = (r, c')"
  from createThumbnail_events [OF run] obtain evs where
    evs: "trace c' = trace c @ evs"
      "\<forall>e\<in>set evs. evThumb e = None \<or>
         (\<exists>t. evThumb e = Some t \<and> thumbOf env file w h = Some t \<and> \<not> isInIndex c t)"
    by blast
  have "\<forall>e\<in>set evs. \<forall>thumb. evThumb e = Some thumb \<longrightarrow> \<not> sameIdentity thumb known"
  proof (intro ballI allI impI)
    fix e thumb
    assume "e \<in> set evs" and "evThumb e = Some thumb"
    with evs(2) have "\<not> isInIndex c thumb" by auto
    with k show "\<not> sameIdentity thumb known"
      using sameIdentity_isInIndex [of thumb known c] by blast
  qed
  with evs(1) createThumbnail_mono [OF run k] createThumbnail_frame [OF run]
  show "isInIndex c' known \<and> True \<and> repository c' = repository c \<and>
        (\<exists>evs. trace c' = trace c @ evs \<and>
           (\<forall>e\<in>set evs. \<forall>thumb. evThumb e = Some thumb \<longrightarrow> \<not> sameIdentity thumb known))"
    by blast
qed

lemma ineligible_thumbOf: "ineligible env file \<Longrightarrow> thumbOf env file w h = None"
  by (auto simp: ineligible_def thumbOf_def split: sum.splits)

lemma ineligible_call:
  "ineligible env file \<Longrightarrow>
     createThumbnail env file w h c =
       (Returned,
        (case file_MimeType file of
           Inl mimeErr \<Rightarrow> logger Warn ''Unable to detect mime type for file. Error: %s'' c
         | Inr mimeType \<Rightarrow> logger Debug ''The mime-type %q is currently not supported.'' c))"
  by (auto simp: ineligible_def call_defs split: sum.splits)

lemma upholds_not_for:
  assumes "ineligible env skipped"
  shows "upholds (\<lambda>c. True) (\<lambda>e. evFile e \<noteq> Some skipped) (\<lambda>r. True)
           (createThumbnail env file w h)"
  unfolding upholds_def
proof (intro allI impI)
  fix c r c'
  assume run: "createThumbnail env file w h c = (r, c')"
  from createThumbnail_events [OF run] obtain evs where
    evs: "trace c' = trace c @ evs"
      "\<forall>e\<in>set evs. (evFile e = None \<or> evFile e = Some file) \<and>
         (evThumb e = None \<or>
          (\<exists>t. evThumb e = Some t \<and> thumbOf env file w h = Some t \<and> \<not> isInIndex c t))"
    by blast
  have "\<forall>e\<in>set evs. evFile e \<noteq> Some skipped"
  proof
    fix e
    assume e: "e \<in> set evs"
    show "evFile e \<noteq> Some skipped"
    proof
      assume s: "evFile e = Some skipped"
      with evs(2) e have "file = skipped" by auto
      with assms have "thumbOf env file w h = None" by (simp add: ineligible_thumbOf)
      with evs(2) e have "evThumb e = None" by auto
      with s show False by (cases e) simp_all
    qed
  qed
  with evs(1) createThumbnail_frame [OF run]
  show "True \<and> True \<and> repository c' = repository c \<and>
        (\<exists>evs. trace c' = trace c @ evs \<and> (\<forall>e\<in>set evs. evFile e \<noteq> Some skipped))"
    by blast
qed

subsection \<open>At most one conversion per identity and pass\<close>









subsection \<open>Records of the index\<close>





lemma createThumbnail_names:
  assumes "createThumbnail env file w h c = (r, c')" and "file_MimeType file = Inr m"
    and "name = thumbFilename (file_Id file) w h (GetFileExtensionFromMimeType env m)"
  shows "\<exists>evs. trace c' = trace c @ evs \<and>
           (\<forall>e\<in>set evs. namedBy name (Join env (thumbnailFolder c) name) e)"
  using assms
  by (auto simp: call_defs namedBy_def newThumb_def
      split: sum.splits if_splits option.splits)

lemma createThumbnail_new_records:
  assumes "createThumbnail env file w h c = (r, c')" and "file_MimeType file = Inr m"
    and "name = thumbFilename (file_Id file) w h (GetFileExtensionFromMimeType env m)"
    and "lookup c' route key = Some t"
  shows "lookup c route key = Some t \<or> Name t = name"
  using assms
  by (auto simp: call_defs lookup_def addToIndex_def newThumb_def
      split: sum.splits if_splits option.splits)

subsection \<open>The disk only grows\<close>

lemma upholds_disk:
  "upholds (\<lambda>c. d \<subseteq> disk c) (\<lambda>e. True) (\<lambda>r. True) (createThumbnail env file w h)"
  unfolding upholds_def
proof (intro allI impI)
  fix c r c'
  assume d: "d \<subseteq> disk c" and run: "createThumbnail env file w h c = (r, c')"
  from createThumbnail_frame [OF run] createThumbnail_trace [OF run] d
  show "d \<subseteq> disk c' \<and> True \<and> repository c' = repository c \<and>
        (\<exists>evs. trace c' = trace c @ evs \<and> (\<forall>e\<in>set evs. True))"
    by auto
qed

lemma pass_keeps_disk:
  assumes "createThumbnails env c = (r, c')"
  shows "disk c \<subseteq> disk c'"
proof -
  have "upholds (\<lambda>x. disk c \<subseteq> disk x) (\<lambda>e. True) (\<lambda>r. True) (forItems env (repository c))"
    by (rule upholds_forItems) (simp_all add: upholds_disk upholds_sleep)
  moreover from assms have "forItems env (repository c) c = (r, c')"
    by (simp add: createThumbnails_def)
  ultimately show ?thesis by (blast dest: upholdsD(1))
qed

lemma createThumbnail_opens_first:
  assumes "thumbOf env file w h = Some t" "\<not> isInIndex c t"
    and "createThumbnail env file w h c = (r, c')"
  shows "\<exists>evs. trace c' = trace c @ EvOpenFile file t (Join env (thumbnailFolder c) (Name t)) # evs \<and>
           (OpenFile env (Join env (thumbnailFolder c) (Name t)) = None \<longrightarrow>
              Join env (thumbnailFolder c) (Name t) \<in> disk c' \<and>
              (r \<noteq> Returned \<longrightarrow> index c' = index c))"
  using assms
  by (auto simp: call_defs thumbOf_def
      split: sum.splits if_splits option.splits)

subsection \<open>The rendering of the bounds is injective\<close>












subsection \<open>A pass unrolled, and a pass repeated\<close>







lemma sleep_never_panics: "sleep n c = (r, c') \<Longrightarrow> r = Returned \<and> c' = emit (EvSleep n) c"
  by (auto simp: sleep_def)



lemma emitted_append:
  assumes "trace c' = trace c @ evs"
  shows "emitted c c' = evs"
  using assms by (simp add: emitted_def)





section \<open>Facts about the sample data\<close>

lemma sampleEnv_fields [simp]:
  "MimeTypeIsSupported sampleEnv m = (m = ''image/jpeg'')"
  "GetFileExtensionFromMimeType sampleEnv m = ''jpg''"
  "Combine sampleEnv p r = Inr (p @ ''/'' @ r)"
  "Join sampleEnv d n = (if d = [] then n else if n = [] then d else d @ ''/'' @ n)"
  "OpenFile sampleEnv path = None"
  "Resize sampleEnv content m w h target = (if content = ''corrupt'' then Some (Error ''decode'') else None)"
  "CreateDirectory sampleEnv path = True"
  "ReadIndexFile sampleEnv path = None"
  by (simp_all add: sampleEnv_def)

lemma photo_fields [simp]:
  "file_Id photo = ''abc123''" "file_Parent photo = ''album''" "file_Route photo = ''photo.jpg''"
  "file_MimeType photo = Inr ''image/jpeg''" "file_Data photo = Inr ''pixels''"
  by (simp_all add: photo_def)

lemma broken_fields [simp]:
  "file_Id broken = ''def456''" "file_Parent broken = ''album''" "file_Route broken = ''broken.jpg''"
  "file_MimeType broken = Inr ''image/jpeg''" "file_Data broken = Inr ''corrupt''"
  by (simp_all add: broken_def)

lemma textFile_fields [simp]:
  "file_Id textFile = ''0a1b2c''" "file_Parent textFile = ''album''" "file_Route textFile = ''notes.txt''"
  "file_MimeType textFile = Inr ''text/plain''" "file_Data textFile = Inr ''hello''"
  by (simp_all add: textFile_def)

lemma sampleService_fields [simp]:
  "disk (sampleService repo) = {''meta/thumbnails''}" "trace (sampleService repo) = []"
  "repository (sampleService repo) = repo" "index (sampleService repo) = Map.empty"
  "thumbnailFolder (sampleService repo) = ''meta/thumbnails''"
  by (simp_all add: sampleService_def)


lemma fmt_uint_samples [simp]:
  "fmt_uint 200 = ''200''" "fmt_uint 400 = ''400''" "fmt_uint 800 = ''800''" "fmt_uint 0 = ''0''"
  by (simp_all add: fmt_uint_def decimal.simps digit_def)

lemmas run_simps =
  createThumbnails_def forFile_def andThen_def sleep_def call_defs
  isInIndex_def addToIndex_def thumbFilename_def newThumb_def ThumbDimension_String_def


lemma warmService_fields [simp]:
  "thumbnailFolder warmService = ''meta/thumbnails''"
  "repository warmService = [[photo, textFile]]"
  "trace warmService = []"
  by (simp_all add: warmService_def)

lemma lockedEnv_fields [simp]:
  "MimeTypeIsSupported lockedEnv m = (m = ''image/jpeg'')"
  "GetFileExtensionFromMimeType lockedEnv m = ''jpg''"
  "Combine lockedEnv p r = Inr (p @ ''/'' @ r)"
  "Join lockedEnv d n = (if d = [] then n else if n = [] then d else d @ ''/'' @ n)"
  "OpenFile lockedEnv path = Some (Error ''permission denied'')"
  by (simp_all add: lockedEnv_def sampleEnv_def)


section \<open>The claims\<close>




text \<open>
  Claim C2 (cache-hit skip): for a thumbnail identity that is in the index, a call of
  \<^verbatim>\<open>createThumbnail\<close> that arrives at this identity only logs that the thumb is
  available and returns; and a whole pass opens no target and invokes \<^verbatim>\<open>Resize\<close> not
  once for a thumb of this identity.
\<close>

theorem cache_hit_skip:
  assumes "isInIndex conversion known"
  shows "(\<forall>file w h thumb.
            thumbOf env file w h = Some thumb \<longrightarrow> sameIdentity thumb known \<longrightarrow>
            createThumbnail env file w h conversion =
              (Returned, logger Debug ''Thumb %q already available in the index'' conversion))
       \<and> (\<forall>r conversion'.
            createThumbnails env conversion = (r, conversion') \<longrightarrow>
            trace conversion' = trace conversion @ emitted conversion conversion' \<and>
            (\<forall>e\<in>set (emitted conversion conversion').
               \<forall>thumb. evThumb e = Some thumb \<longrightarrow> \<not> sameIdentity thumb known))"
proof (intro conjI allI impI)
  fix f w h thumb
  assume t: "thumbOf env f w h = Some thumb" and s: "sameIdentity thumb known"
  from s assms have "isInIndex conversion thumb"
    using sameIdentity_isInIndex [of thumb known conversion] by simp
  from createThumbnail_hit [OF t this]
  show "createThumbnail env f w h conversion =
          (Returned, logger Debug ''Thumb %q already available in the index'' conversion)" .
next
  fix r conversion'
  assume run: "createThumbnails env conversion = (r, conversion')"
  have u: "upholds (\<lambda>c. isInIndex c known)
         (\<lambda>e. \<forall>thumb. evThumb e = Some thumb \<longrightarrow> \<not> sameIdentity thumb known)
         (\<lambda>r. True) (forItems env (repository conversion))"
    by (rule upholds_forItems) (simp_all add: upholds_known upholds_sleep)
  from run have run': "forItems env (repository conversion) conversion = (r, conversion')"
    by (simp add: createThumbnails_def)
  from upholdsD(4) [OF u assms run']
  show "trace conversion' = trace conversion @ emitted conversion conversion'" .
  from upholdsD(5) [OF u assms run']
  show "\<forall>e\<in>set (emitted conversion conversion').
          \<forall>thumb. evThumb e = Some thumb \<longrightarrow> \<not> sameIdentity thumb known" .
qed

text \<open>
  Claim C2 on a service whose index holds the thumb of the sample photo at (200,0):
  the call for the photo at these bounds only logs, and the events of a pass are the
  conversions at (400,0) and (800,0).
\<close>

theorem cache_hit_skip_witness:
  "isInIndex warmService (newThumb ''album/photo.jpg'' ''abc123-200-0.jpg'' 200 0) \<and>
   createThumbnail sampleEnv photo 200 0 warmService =
     (Returned, logger Debug ''Thumb %q already available in the index'' warmService) \<and>
   map evThumb (filter isResize (emitted warmService (snd (createThumbnails sampleEnv warmService)))) =
     [Some (newThumb ''album/photo.jpg'' ''abc123-400-0.jpg'' 400 0),
      Some (newThumb ''album/photo.jpg'' ''abc123-800-0.jpg'' 800 0)]"
proof -
  let ?known = "newThumb ''album/photo.jpg'' ''abc123-200-0.jpg'' 200 0"
  have h: "isInIndex warmService ?known"
    by (simp add: warmService_def isInIndex_addToIndex_same)
  have t: "thumbOf sampleEnv photo 200 0 = Some ?known"
    by (simp add: thumbOf_def thumbFilename_def)
  have s: "sameIdentity ?known ?known" by (simp add: sameIdentity_def)
  from cache_hit_skip [OF h, of sampleEnv] t s
  have "createThumbnail sampleEnv photo 200 0 warmService =
     (Returned, logger Debug ''Thumb %q already available in the index'' warmService)"
    by blast
  moreover have "map evThumb (filter isResize (emitted warmService (snd (createThumbnails sampleEnv warmService)))) =
     [Some (newThumb ''album/photo.jpg'' ''abc123-400-0.jpg'' 400 0),
      Some (newThumb ''album/photo.jpg'' ''abc123-800-0.jpg'' 800 0)]"
    by (simp add: emitted_def run_simps warmService_def)
  ultimately show ?thesis using h by simp
qed



text \<open>
  Claim C4 (error isolation): every per-file, per-dimension failure is to leave
  \<^verbatim>\<open>createThumbnail\<close> by a normal return. The code does not do so when the conversion
  fails: the warning it then logs evaluates \<^verbatim>\<open>err.Error()\<close>, where \<open>err\<close> is the
  error returned by the successful \<^verbatim>\<open>fsutil.OpenFile\<close>, that is \<^verbatim>\<open>nil\<close>, instead of
  \<^verbatim>\<open>conversionError\<close>. For a supported file whose content does not decode, the call
  ends in a nil dereference panic (in general: lemma \<open>createThumbnail_resize_failed\<close>).
  The other failures, of the media type, of the routes and of the open, do return
  (lemma \<open>settled_idle\<close>).
\<close>

theorem resize_failure_panics:
  "fst (createThumbnail sampleEnv broken 200 0 (sampleService [[broken]])) = Panicked NilDereference"
  by (simp add: call_defs isInIndex_def thumbFilename_def)

text \<open>
  Claim C5 (unsupported or undetectable media type): for a file whose media type
  cannot be detected or is not supported, every call of \<^verbatim>\<open>createThumbnail\<close>, at any
  bounds and in any state, returns after one log entry, leaving the index and the disk
  as they are; and in a whole pass no target is opened and no conversion invoked for
  this file, at any point of the pass.
\<close>

theorem unsupported_type_skip:
  assumes "ineligible env file"
  shows "(\<forall>w h conversion r conversion'.
            createThumbnail env file w h conversion = (r, conversion') \<longrightarrow>
            r = Returned \<and> index conversion' = index conversion \<and>
            disk conversion' = disk conversion \<and>
            length (emitted conversion conversion') = 1 \<and>
            list_all (\<lambda>e. evFile e = None) (emitted conversion conversion'))
       \<and> (\<forall>conversion r conversion'.
            createThumbnails env conversion = (r, conversion') \<longrightarrow>
            trace conversion' = trace conversion @ emitted conversion conversion' \<and>
            list_all (\<lambda>e. evFile e \<noteq> Some file) (emitted conversion conversion'))"
proof (intro conjI allI impI)
  fix w h c r c'
  assume run: "createThumbnail env file w h c = (r, c')"
  with ineligible_call [OF assms, of w h c]
  have "r = Returned" "index c' = index c" "disk c' = disk c"
    "\<exists>l msg. trace c' = trace c @ [EvLog l msg]"
    by (auto split: sum.splits)
  then show "r = Returned" "index c' = index c" "disk c' = disk c"
    "length (emitted c c') = 1" "list_all (\<lambda>e. evFile e = None) (emitted c c')"
    by (auto simp: emitted_def)
next
  fix c r c'
  assume run: "createThumbnails env c = (r, c')"
  have u: "upholds (\<lambda>c. True) (\<lambda>e. evFile e \<noteq> Some file) (\<lambda>r. True)
             (forItems env (repository c))"
    by (rule upholds_forItems) (simp_all add: upholds_not_for [OF assms] upholds_sleep)
  from run have run': "forItems env (repository c) c = (r, c')"
    by (simp add: createThumbnails_def)
  from upholdsD(4) [OF u _ run'] show "trace c' = trace c @ emitted c c'" by simp
  from upholdsD(5) [OF u _ run']
  show "list_all (\<lambda>e. evFile e \<noteq> Some file) (emitted c c')"
    by (simp add: list_all_iff)
qed

text \<open>
  Claim C5 on the sample repository: the text file is not eligible, the call for it
  changes nothing but the log, and the files for which a pass opens targets are the
  photo's only.
\<close>

theorem unsupported_type_skip_witness:
  "ineligible sampleEnv textFile \<and>
   fst (createThumbnail sampleEnv textFile 200 0 (sampleService [[photo, textFile]])) = Returned \<and>
   index (snd (createThumbnail sampleEnv textFile 200 0 (sampleService [[photo, textFile]]))) = Map.empty \<and>
   list_all (\<lambda>e. evFile e \<noteq> Some textFile)
     (emitted (sampleService [[photo, textFile]])
        (snd (createThumbnails sampleEnv (sampleService [[photo, textFile]]))))"
proof -
  have h: "ineligible sampleEnv textFile" by (simp add: ineligible_def)
  let ?c = "sampleService [[photo, textFile]]"
  have 1: "createThumbnail sampleEnv textFile 200 0 ?c =
            (fst (createThumbnail sampleEnv textFile 200 0 ?c),
             snd (createThumbnail sampleEnv textFile 200 0 ?c))" by simp
  have 2: "createThumbnails sampleEnv ?c =
            (fst (createThumbnails sampleEnv ?c), snd (createThumbnails sampleEnv ?c))" by simp
  from unsupported_type_skip [OF h] 1 2 show ?thesis using h
    by (metis sampleService_fields(4))
qed

text \<open>
  Claim C6 (iteration structure): a pass is to visit every file of every item, attempt
  the three bounds for each and sleep five seconds after each. The loops of
  \<^verbatim>\<open>createThumbnails\<close> are written that way, but the panic of a failed conversion
  leaves them: with a repository of one item holding a file that does not decode and
  a sound one, the pass ends after the first bounds of the first file, without any
  sleep and without visiting the second file.
\<close>

theorem failed_resize_aborts_pass:
  "fst (createThumbnails sampleEnv (sampleService [[broken, photo]])) = Panicked NilDereference \<and>
   trace (snd (createThumbnails sampleEnv (sampleService [[broken, photo]]))) =
     [EvOpenFile broken (newThumb ''album/broken.jpg'' ''def456-200-0.jpg'' 200 0)
        ''meta/thumbnails/def456-200-0.jpg'',
      EvResize broken (newThumb ''album/broken.jpg'' ''def456-200-0.jpg'' 200 0) ''image/jpeg''
        ''meta/thumbnails/def456-200-0.jpg'',
      EvClose ''meta/thumbnails/def456-200-0.jpg'']"
  by (simp add: createThumbnails_def forFile_def andThen_def call_defs isInIndex_def
      thumbFilename_def)

text \<open>
  Claim C7 (construction): \<^verbatim>\<open>NewConversionService\<close> returns \<^verbatim>\<open>nil\<close> exactly when the
  thumbnail folder cannot be created. When it can, the service is returned whatever
  the loading of the index did: with the loaded index, or with the empty one when the
  index file is missing, unreadable or corrupt.
\<close>

theorem construction_fails_iff_no_directory:
  "((\<exists>host'. NewConversionService env metaDataFolder repo host = Inl host') \<longleftrightarrow>
      \<not> CreateDirectory env (Join env metaDataFolder ''thumbnails''))
   \<and> (CreateDirectory env (Join env metaDataFolder ''thumbnails'') \<longrightarrow>
        (\<exists>service. NewConversionService env metaDataFolder repo host = Inr service \<and>
           index service =
             (case ReadIndexFile env (Join env metaDataFolder ''thumbnail.index'') of
                None \<Rightarrow> Map.empty | Some loaded \<Rightarrow> loaded) \<and>
           isRunning service \<and> repository service = repo \<and>
           indexFilePath service = Join env metaDataFolder ''thumbnail.index'' \<and>
           thumbnailFolder service = Join env metaDataFolder ''thumbnails'' \<and>
           Join env metaDataFolder ''thumbnails'' \<in> disk service))"
  by (auto simp: NewConversionService_def loadIndex_def Let_def Host.defs ConversionService.defs
      split: option.splits prod.splits)

text \<open>
  Claim C7 on the sample environment, which has no index file: the service is
  constructed with an empty index; where no directory can be created, it is not.
\<close>

theorem construction_fails_iff_no_directory_witness:
  "CreateDirectory sampleEnv (Join sampleEnv ''meta'' ''thumbnails'') \<and>
   ReadIndexFile sampleEnv (Join sampleEnv ''meta'' ''thumbnail.index'') = None \<and>
   \<not> isl (NewConversionService sampleEnv ''meta'' [[photo]] emptyHost) \<and>
   index (projr (NewConversionService sampleEnv ''meta'' [[photo]] emptyHost)) = Map.empty \<and>
   \<not> CreateDirectory readOnlyEnv (Join readOnlyEnv ''meta'' ''thumbnails'') \<and>
   isl (NewConversionService readOnlyEnv ''meta'' [[photo]] emptyHost)"
proof -
  have c: "CreateDirectory sampleEnv (Join sampleEnv ''meta'' ''thumbnails'')"
    and l: "ReadIndexFile sampleEnv (Join sampleEnv ''meta'' ''thumbnail.index'') = None"
    by simp_all
  have n: "\<not> CreateDirectory readOnlyEnv (Join readOnlyEnv ''meta'' ''thumbnails'')"
    by (simp add: readOnlyEnv_def)
  from construction_fails_iff_no_directory [of sampleEnv "''meta''" "[[photo]]" emptyHost] c l
  obtain service where
    "NewConversionService sampleEnv ''meta'' [[photo]] emptyHost = Inr service"
    "index service = Map.empty"
    by auto
  then have 1: "\<not> isl (NewConversionService sampleEnv ''meta'' [[photo]] emptyHost)"
    "index (projr (NewConversionService sampleEnv ''meta'' [[photo]] emptyHost)) = Map.empty"
    by simp_all
  from construction_fails_iff_no_directory [of readOnlyEnv "''meta''" "[[photo]]" emptyHost] n
  have 2: "isl (NewConversionService readOnlyEnv ''meta'' [[photo]] emptyHost)"
    by auto
  from c l n 1 2 show ?thesis by blast
qed

text \<open>
  Claim C8 (deterministic naming): the file name is the identifier of the file, the
  two bounds in decimal and the extension, joined as \<^verbatim>\<open><fileId>-<maxWidth>-<maxHeight>.<ext>\<close>;
  for \<^verbatim>\<open>abc123\<close>, 200, 0 and \<^verbatim>\<open>jpg\<close> it is \<^verbatim>\<open>abc123-200-0.jpg\<close>. It is this name that
  \<^verbatim>\<open>createThumbnail\<close> uses: whatever target a call opens or converts into is this name
  in the thumbnail folder, and whatever record it adds to the index carries it.
\<close>

theorem deterministic_naming:
  "thumbFilename fileId w h ext =
     fileId @ ''-'' @ decimal (unat w) @ ''-'' @ decimal (unat h) @ ''.'' @ ext
   \<and> thumbFilename ''abc123'' 200 0 ''jpg'' = ''abc123-200-0.jpg''
   \<and> (\<forall>env file mimeType c r c'.
         createThumbnail env file w h c = (r, c') \<longrightarrow> file_MimeType file = Inr mimeType \<longrightarrow>
         list_all
           (namedBy (thumbFilename (file_Id file) w h (GetFileExtensionFromMimeType env mimeType))
              (Join env (thumbnailFolder c)
                 (thumbFilename (file_Id file) w h (GetFileExtensionFromMimeType env mimeType))))
           (emitted c c')
         \<and> (\<forall>route key t. lookup c' route key = Some t \<longrightarrow>
               lookup c route key = Some t \<or>
               Name t = thumbFilename (file_Id file) w h (GetFileExtensionFromMimeType env mimeType)))"
proof (intro conjI allI impI)
  show "thumbFilename fileId w h ext =
     fileId @ ''-'' @ decimal (unat w) @ ''-'' @ decimal (unat h) @ ''.'' @ ext"
    by (simp add: thumbFilename_def fmt_uint_def)
  show "thumbFilename ''abc123'' 200 0 ''jpg'' = ''abc123-200-0.jpg''"
    by (simp add: thumbFilename_def)
next
  fix env f mimeType c r c'
  assume run: "createThumbnail env f w h c = (r, c')" and mime: "file_MimeType f = Inr mimeType"
  let ?name = "thumbFilename (file_Id f) w h (GetFileExtensionFromMimeType env mimeType)"
  from createThumbnail_names [OF run mime refl]
  show "list_all (namedBy ?name (Join env (thumbnailFolder c) ?name)) (emitted c c')"
    by (auto simp: emitted_def list_all_iff)
  fix route key t
  assume "lookup c' route key = Some t"
  from createThumbnail_new_records [OF run mime refl this]
  show "lookup c route key = Some t \<or> Name t = ?name" .
qed

text \<open>
  Claim C8 on the sample photo at (200,0): the target opened is
  \<^verbatim>\<open>meta/thumbnails/abc123-200-0.jpg\<close>, and so is the record of the index named.
\<close>

theorem deterministic_naming_witness:
  "file_MimeType photo = Inr ''image/jpeg'' \<and>
   hd (emitted (sampleService [[photo]]) (snd (createThumbnail sampleEnv photo 200 0 (sampleService [[photo]]))))
     = EvOpenFile photo (newThumb ''album/photo.jpg'' ''abc123-200-0.jpg'' 200 0)
         ''meta/thumbnails/abc123-200-0.jpg'' \<and>
   namedBy ''abc123-200-0.jpg'' ''meta/thumbnails/abc123-200-0.jpg''
     (hd (emitted (sampleService [[photo]])
            (snd (createThumbnail sampleEnv photo 200 0 (sampleService [[photo]])))))"
proof -
  let ?s = "sampleService [[photo]]"
  let ?evs = "emitted ?s (snd (createThumbnail sampleEnv photo 200 0 ?s))"
  have hd: "hd ?evs = EvOpenFile photo (newThumb ''album/photo.jpg'' ''abc123-200-0.jpg'' 200 0)
         ''meta/thumbnails/abc123-200-0.jpg''" and ne: "?evs \<noteq> []"
    by (simp_all add: emitted_def run_simps)
  have pair: "createThumbnail sampleEnv photo 200 0 ?s =
     (fst (createThumbnail sampleEnv photo 200 0 ?s), snd (createThumbnail sampleEnv photo 200 0 ?s))"
    by simp
  from deterministic_naming [of _ 200 0] pair photo_fields(4)
  have "list_all
           (namedBy (thumbFilename (file_Id photo) 200 0 (GetFileExtensionFromMimeType sampleEnv ''image/jpeg''))
              (Join sampleEnv (thumbnailFolder ?s)
                 (thumbFilename (file_Id photo) 200 0 (GetFileExtensionFromMimeType sampleEnv ''image/jpeg''))))
           ?evs"
    by blast
  then have "list_all (namedBy ''abc123-200-0.jpg'' ''meta/thumbnails/abc123-200-0.jpg'') ?evs"
    by (simp add: thumbFilename_def)
  with ne have "namedBy ''abc123-200-0.jpg'' ''meta/thumbnails/abc123-200-0.jpg'' (hd ?evs)"
    by (simp add: list_all_iff)
  with hd show ?thesis by simp
qed

text \<open>
  Claim C10 (a failed build leaves its target on disk): a call that passes the media
  type, route and index checks opens its target before anything else, and when the
  target opens it exists afterwards, whatever the conversion does; when \<^verbatim>\<open>Resize\<close>
  returns an error the target exists although the identity is not in the index.
  Neither the call nor any later pass removes a file.
\<close>

theorem failed_build_leaves_target:
  assumes thumb: "thumbOf env file w h = Some thumb"
    and fresh: "\<not> isInIndex conversion thumb"
    and path: "path = Join env (thumbnailFolder conversion) (Name thumb)"
    and run: "createThumbnail env file w h conversion = (r, conversion')"
  shows "take 1 (emitted conversion conversion') = [EvOpenFile file thumb path]
       \<and> disk conversion \<subseteq> disk conversion'
       \<and> (OpenFile env path = None \<longrightarrow> path \<in> disk conversion')
       \<and> (\<forall>mimeType content.
            OpenFile env path = None \<and> file_MimeType file = Inr mimeType \<and>
            file_Data file = Inr content \<and> Resize env content mimeType w h path \<noteq> None \<longrightarrow>
            path \<in> disk conversion' \<and> \<not> isInIndex conversion' thumb \<and>
            filter isResize (emitted conversion conversion') =
              [EvResize file thumb mimeType path])
       \<and> (\<forall>rp later. createThumbnails env conversion' = (rp, later) \<longrightarrow>
            disk conversion' \<subseteq> disk later)"
proof (intro conjI allI impI)
  from createThumbnail_opens_first [OF thumb fresh run] obtain evs where
    evs: "trace conversion' = trace conversion @ EvOpenFile file thumb path # evs"
      "OpenFile env path = None \<longrightarrow> path \<in> disk conversion'"
    by (auto simp: path)
  from evs(1) show "take 1 (emitted conversion conversion') = [EvOpenFile file thumb path]"
    by (simp add: emitted_def)
  from createThumbnail_frame [OF run] show "disk conversion \<subseteq> disk conversion'" by simp
  { assume "OpenFile env path = None"
    with evs(2) show "path \<in> disk conversion'" by simp }
  { fix mimeType content
    assume a: "OpenFile env path = None \<and> file_MimeType file = Inr mimeType \<and>
            file_Data file = Inr content \<and> Resize env content mimeType w h path \<noteq> None"
    then obtain e where e: "Resize env content mimeType w h path = Some e" by auto
    from a evs(2) show "path \<in> disk conversion'" by simp
    from a e createThumbnail_resize_failed [OF thumb fresh _ _ _ _ run, of mimeType content e]
    have 1: "index conversion' = index conversion"
      "trace conversion' = trace conversion @
         [EvOpenFile file thumb path, EvResize file thumb mimeType path, EvClose path]"
      by (simp_all add: path)
    from 1(1) fresh show "\<not> isInIndex conversion' thumb" by (simp add: isInIndex_def)
    from 1(2) show "filter isResize (emitted conversion conversion') =
        [EvResize file thumb mimeType path]"
      by (simp add: emitted_def) }
  { fix rp later
    assume "createThumbnails env conversion' = (rp, later)"
    then show "disk conversion' \<subseteq> disk later" by (rule pass_keeps_disk) }
qed

text \<open>
  Claim C10 on the sample file that does not decode: after the failed call its target
  is on disk and its identity is not in the index.
\<close>

theorem failed_build_leaves_target_witness:
  "thumbOf sampleEnv broken 200 0 = Some (newThumb ''album/broken.jpg'' ''def456-200-0.jpg'' 200 0) \<and>
   \<not> isInIndex (sampleService [[broken]]) (newThumb ''album/broken.jpg'' ''def456-200-0.jpg'' 200 0) \<and>
   Resize sampleEnv ''corrupt'' ''image/jpeg'' 200 0 ''meta/thumbnails/def456-200-0.jpg'' \<noteq> None \<and>
   ''meta/thumbnails/def456-200-0.jpg'' \<notin> disk (sampleService [[broken]]) \<and>
   ''meta/thumbnails/def456-200-0.jpg''
      \<in> disk (snd (createThumbnail sampleEnv broken 200 0 (sampleService [[broken]]))) \<and>
   \<not> isInIndex (snd (createThumbnail sampleEnv broken 200 0 (sampleService [[broken]])))
        (newThumb ''album/broken.jpg'' ''def456-200-0.jpg'' 200 0)"
proof -
  let ?s = "sampleService [[broken]]"
  let ?b = "newThumb ''album/broken.jpg'' ''def456-200-0.jpg'' 200 0"
  have tb: "thumbOf sampleEnv broken 200 0 = Some ?b"
    by (simp add: thumbOf_def thumbFilename_def)
  have nb: "\<not> isInIndex ?s ?b" by (simp add: isInIndex_def)
  have pb: "''meta/thumbnails/def456-200-0.jpg'' = Join sampleEnv (thumbnailFolder ?s) (Name ?b)"
    by simp
  have rb: "Resize sampleEnv ''corrupt'' ''image/jpeg'' 200 0 ''meta/thumbnails/def456-200-0.jpg'' \<noteq> None"
    by simp
  have ob: "OpenFile sampleEnv ''meta/thumbnails/def456-200-0.jpg'' = None" by simp
  have nd: "''meta/thumbnails/def456-200-0.jpg'' \<notin> disk ?s" by simp
  have pair: "\<And>x. x = (fst x, snd x)" by simp
  from failed_build_leaves_target [OF tb nb pb pair] ob rb broken_fields(4) broken_fields(5)
  have "''meta/thumbnails/def456-200-0.jpg'' \<in> disk (snd (createThumbnail sampleEnv broken 200 0 ?s))"
    "\<not> isInIndex (snd (createThumbnail sampleEnv broken 200 0 ?s)) ?b"
    by blast+
  with tb nb rb nd show ?thesis by blast
qed

end
